theory Spec2Isabelle
  imports Main "HOL-Library.Word"
begin

section \<open>Data model\<close>

text \<open>
  The Go interfaces \<^verbatim>\<open>sql.Type\<close> and \<^verbatim>\<open>interface{}\<close> values are declared outside the
  files at hand. The constructors below are the types and values the sources name
  (\<^verbatim>\<open>types.Null\<close>, \<^verbatim>\<open>sql.LongText\<close>, \<^verbatim>\<open>sql.Int64\<close>, string and int64 literals);
  every other type or value is an \<open>OtherType\<close> or \<open>OtherValue\<close> tag.
\<close>

datatype sql_type = Null | LongText | Int64 | OtherType string

datatype sql_value = NilValue | StringValue string | Int64Value "64 word" | OtherValue string

text \<open>\<^verbatim>\<open>sql.CollationID\<close> is a numeric identifier.\<close>

type_synonym CollationID = nat

datatype SystemVariableScope =
    SystemVariableScope_Global
  | SystemVariableScope_Session
  | SystemVariableScope_Other nat

text \<open>
  Errors are values. Each constructor is one error kind the sources build:
  \<^verbatim>\<open>sql.ErrTableNotFound.New(table)\<close>, \<^verbatim>\<open>sql.ErrUnknownSystemVariable.New(name)\<close>,
  \<open>Errorf\<close> for a \<^verbatim>\<open>fmt.Errorf\<close> with a constant message, \<open>ErrUnknownScope\<close> for the
  \<^verbatim>\<open>fmt.Errorf\<close> that formats a scope and a name, the view registry's two kinds, and
  \<open>OtherError\<close> for an error produced by a collaborator (a session store, a replication
  controller).
\<close>

datatype error =
    ErrTableNotFound string
  | ErrUnknownSystemVariable string
  | ErrUnknownScope SystemVariableScope string
  | Errorf string
  | ErrExistingView string string
  | ErrNonExistingView string string
  | OtherError string

text \<open>A column of a \<^verbatim>\<open>sql.Schema\<close>: the four fields star expansion reads.\<close>

record Column =
  Column_Name :: string
  Column_Type :: sql_type
  Column_Source :: string
  Column_Nullable :: bool

type_synonym Schema = "Column list"

text \<open>\<^verbatim>\<open>SystemVar\<close> and \<^verbatim>\<open>UserVar\<close>, field by field.\<close>

record SystemVar =
  SystemVar_Name :: string
  SystemVar_Collation :: CollationID
  SystemVar_Scope :: SystemVariableScope
  SystemVar_SpecifiedScope :: string

record UserVar =
  UserVar_Name :: string
  UserVar_exprType :: sql_type

text \<open>
  \<^verbatim>\<open>sql.Expression\<close> is an interface; the variants are the expression types the sources
  construct. \<open>GetField\<close> carries the five arguments of
  \<^verbatim>\<open>expression.NewGetFieldWithTable(index, type, table, name, nullable)\<close>.
\<close>

datatype Expression =
    Star string
  | GetField nat sql_type string string bool
  | UnresolvedColumn string
  | Literal sql_value sql_type
  | DefaultColumn string
  | SetField Expression Expression
  | SystemVarExpr SystemVar
  | UserVarExpr UserVar

section \<open>Star expansion: \<^verbatim>\<open>expandStarsForExpressions\<close>\<close>

text \<open>
  \<^verbatim>\<open>strings.ToLower\<close> belongs to the Go standard library and maps every Unicode letter
  to lower case. It is the parameter \<open>toLower\<close> of every definition that calls it, so
  each theorem holds for whatever function it is. \<open>asciiToLower\<close> is that function on
  ASCII strings and instantiates the parameter at concrete inputs.
\<close>

definition asciiLowerChar :: "char \<Rightarrow> char" where
  "asciiLowerChar c =
     (if 65 \<le> (of_char c :: nat) \<and> (of_char c :: nat) \<le> 90
      then char_of ((of_char c :: nat) + 32) else c)"

definition asciiToLower :: "string \<Rightarrow> string" where
  "asciiToLower s = map asciiLowerChar s"

text \<open>
  The inner loop \<^verbatim>\<open>for i, col := range schema\<close>: \<open>i\<close> is the running index, the last
  argument the slice \<^verbatim>\<open>exprs\<close> built so far.
\<close>

fun starColumns ::
  "(string \<Rightarrow> string) \<Rightarrow> string \<Rightarrow> nat \<Rightarrow> Schema \<Rightarrow> Expression list \<Rightarrow> Expression list"
where
  "starColumns toLower table i [] exprs = exprs"
| "starColumns toLower table i (col # schema) exprs =
     (let lowerSource = toLower (Column_Source col);
          lowerTable = toLower table
      in if table = [] \<or> lowerTable = lowerSource
         then starColumns toLower table (Suc i) schema
                (exprs @ [GetField i (Column_Type col) (Column_Source col)
                            (Column_Name col) (Column_Nullable col)])
         else starColumns toLower table (Suc i) schema exprs)"

text \<open>
  The outer loop \<^verbatim>\<open>for _, e := range exprs\<close>, with the slice \<^verbatim>\<open>expressions\<close> as
  accumulator. The early \<^verbatim>\<open>return nil, sql.ErrTableNotFound.New(star.Table)\<close> is the
  \<open>Inl\<close> branch.
\<close>

fun expandLoop ::
  "(string \<Rightarrow> string) \<Rightarrow> Expression list \<Rightarrow> Schema \<Rightarrow> Expression list
     \<Rightarrow> error + Expression list"
where
  "expandLoop toLower [] schema expressions = Inr expressions"
| "expandLoop toLower (e # es) schema expressions =
     (case e of
        Star table \<Rightarrow>
          (let exprs = starColumns toLower table 0 schema []
           in if length exprs = 0 \<and> table \<noteq> []
              then Inl (ErrTableNotFound table)
              else expandLoop toLower es schema (expressions @ exprs))
      | _ \<Rightarrow> expandLoop toLower es schema (expressions @ [e]))"

text \<open>
  \<^verbatim>\<open>expandStarsForExpressions(a, exprs, schema, tableAliases)\<close>. The analyzer \<^verbatim>\<open>a\<close> is
  used for one log line only and is left out; \<^verbatim>\<open>tableAliases\<close> is a parameter the body
  never reads.
\<close>

definition expandStarsForExpressions ::
  "(string \<Rightarrow> string) \<Rightarrow> Expression list \<Rightarrow> Schema \<Rightarrow> 'aliases
     \<Rightarrow> error + Expression list"
where
  "expandStarsForExpressions toLower exprs schema tableAliases =
     expandLoop toLower exprs schema []"

subsection \<open>The expansion as the specification words it\<close>

text \<open>A column belongs to a wildcard when the wildcard is unqualified or names the
  column's source table, compared after lower-casing both.\<close>

definition starMatches :: "(string \<Rightarrow> string) \<Rightarrow> string \<Rightarrow> Column \<Rightarrow> bool" where
  "starMatches toLower table col \<longleftrightarrow>
     table = [] \<or> toLower table = toLower (Column_Source col)"

text \<open>The field reference generated for the column at position \<open>i\<close> of a schema.\<close>

definition fieldRef :: "Schema \<Rightarrow> nat \<Rightarrow> Expression" where
  "fieldRef schema i =
     GetField i (Column_Type (schema ! i)) (Column_Source (schema ! i))
       (Column_Name (schema ! i)) (Column_Nullable (schema ! i))"

text \<open>One reference per matching column, in schema order.\<close>

definition starExpansion :: "(string \<Rightarrow> string) \<Rightarrow> string \<Rightarrow> Schema \<Rightarrow> Expression list" where
  "starExpansion toLower table schema =
     map (fieldRef schema)
       (filter (\<lambda>i. starMatches toLower table (schema ! i)) [0..<length schema])"

text \<open>Every wildcard replaced by its expansion, every other expression kept in place.\<close>

fun expandOne :: "(string \<Rightarrow> string) \<Rightarrow> Schema \<Rightarrow> Expression \<Rightarrow> Expression list" where
  "expandOne toLower schema (Star table) = starExpansion toLower table schema"
| "expandOne toLower schema e = [e]"

definition expandedProjections ::
  "(string \<Rightarrow> string) \<Rightarrow> Expression list \<Rightarrow> Schema \<Rightarrow> Expression list"
where
  "expandedProjections toLower exprs schema = concat (map (expandOne toLower schema) exprs)"

text \<open>A wildcard that names a table no column of the schema comes from.\<close>

fun missingTable :: "(string \<Rightarrow> string) \<Rightarrow> Schema \<Rightarrow> Expression \<Rightarrow> bool" where
  "missingTable toLower schema (Star table) \<longleftrightarrow>
     table \<noteq> [] \<and> list_all (\<lambda>col. toLower table \<noteq> toLower (Column_Source col)) schema"
| "missingTable toLower schema e \<longleftrightarrow> False"

fun starTable :: "Expression \<Rightarrow> string" where
  "starTable (Star table) = table"
| "starTable e = []"

text \<open>The schema of the specification's example: columns \<open>a\<close> and \<open>b\<close> of table \<open>t\<close>.\<close>

definition exampleSchema :: Schema where
  "exampleSchema =
     [\<lparr>Column_Name = ''a'', Column_Type = Int64, Column_Source = ''t'', Column_Nullable = False\<rparr>,
      \<lparr>Column_Name = ''b'', Column_Type = LongText, Column_Source = ''t'', Column_Nullable = True\<rparr>]"

section \<open>System and user variables\<close>







definition SystemVar_IsNullable :: "SystemVar \<Rightarrow> bool" where
  "SystemVar_IsNullable v = False"

definition SystemVar_Resolved :: "SystemVar \<Rightarrow> bool" where
  "SystemVar_Resolved v = True"


definition NewUserVarWithType :: "string \<Rightarrow> sql_type \<Rightarrow> UserVar" where
  "NewUserVarWithType name t = \<lparr>UserVar_Name = name, UserVar_exprType = t\<rparr>"



definition UserVar_IsNullable :: "UserVar \<Rightarrow> bool" where
  "UserVar_IsNullable v = True"

definition UserVar_Resolved :: "UserVar \<Rightarrow> bool" where
  "UserVar_Resolved v = True"





section \<open>Replication commands\<close>

text \<open>
  \<^verbatim>\<open>binlogreplication.ReplicationOption\<close>: a name and a value; the value's interface is
  declared outside these files and is kept as its printed form.
\<close>

record ReplicationOption =
  ReplicationOption_Name :: string
  ReplicationOption_Value :: string

















section \<open>Plan nodes and the rule \<^verbatim>\<open>expandStars\<close>\<close>

text \<open>
  \<^verbatim>\<open>sql.Node\<close> is an interface. The rule tells apart \<^verbatim>\<open>*plan.Project\<close> (projections and
  a child), \<^verbatim>\<open>*plan.GroupBy\<close> (selected expressions, grouping expressions and a child)
  and every other node. Of the others, \<open>Table\<close> is a leaf that provides rows (its name,
  whether it is resolved, its schema), and \<open>OtherNode\<close> any operator with expressions and
  children.
\<close>

datatype Node =
    Project "Expression list" Node
  | GroupBy "Expression list" "Expression list" Node
  | Table string bool Schema
  | OtherNode string "Expression list" "Node list"

text \<open>
  Modelled from the spec: \<^verbatim>\<open>Resolved()\<close> of the expression types whose code is missing
  from the files at hand (section 3: true for literals and fully bound references, false
  for unqualified or unknown names; a wildcard and a \<^verbatim>\<open>DEFAULT\<close> placeholder are still to
  be replaced). The two variable expressions use their own methods, which the sources
  give.
\<close>

fun Expression_Resolved :: "Expression \<Rightarrow> bool" where
  "Expression_Resolved (Star table) = False"
| "Expression_Resolved (GetField i t source name nullable) = True"
| "Expression_Resolved (UnresolvedColumn name) = False"
| "Expression_Resolved (Literal val t) = True"
| "Expression_Resolved (DefaultColumn name) = False"
| "Expression_Resolved (SetField left right) =
     (Expression_Resolved left \<and> Expression_Resolved right)"
| "Expression_Resolved (SystemVarExpr v) = SystemVar_Resolved v"
| "Expression_Resolved (UserVarExpr v) = UserVar_Resolved v"

text \<open>
  Modelled from the spec: \<^verbatim>\<open>Resolved()\<close> of the plan nodes, missing from the files at
  hand (section 3: a node is resolved iff all its expressions and children are
  resolved). A table leaf carries its own flag.
\<close>

fun Node_Resolved :: "Node \<Rightarrow> bool" where
  "Node_Resolved (Project projections child) =
     (list_all Expression_Resolved projections \<and> Node_Resolved child)"
| "Node_Resolved (GroupBy selectedExprs groupByExprs child) =
     (list_all Expression_Resolved selectedExprs \<and> list_all Expression_Resolved groupByExprs
      \<and> Node_Resolved child)"
| "Node_Resolved (Table name resolved schema) = resolved"
| "Node_Resolved (OtherNode tag exprs children) =
     (list_all Expression_Resolved exprs \<and> list_all Node_Resolved children)"

text \<open>
  Modelled from the spec: \<^verbatim>\<open>plan.TransformUp\<close>, missing from the files at hand (section
  4.1: it transforms every child first, then applies the function to the node rebuilt
  from the new children; an error of the function aborts the transformation and is
  returned unchanged). The node is rebuilt with as many children as it had, so the
  arity check of \<^verbatim>\<open>WithChildren\<close> cannot fail here.
\<close>

fun TransformUp :: "Node \<Rightarrow> (Node \<Rightarrow> error + Node) \<Rightarrow> error + Node"
  and TransformUp_children :: "Node list \<Rightarrow> (Node \<Rightarrow> error + Node) \<Rightarrow> error + Node list"
where
  "TransformUp (Project projections child) f =
     (case TransformUp child f of
        Inl err \<Rightarrow> Inl err
      | Inr child' \<Rightarrow> f (Project projections child'))"
| "TransformUp (GroupBy selectedExprs groupByExprs child) f =
     (case TransformUp child f of
        Inl err \<Rightarrow> Inl err
      | Inr child' \<Rightarrow> f (GroupBy selectedExprs groupByExprs child'))"
| "TransformUp (Table name resolved schema) f = f (Table name resolved schema)"
| "TransformUp (OtherNode tag exprs children) f =
     (case TransformUp_children children f of
        Inl err \<Rightarrow> Inl err
      | Inr children' \<Rightarrow> f (OtherNode tag exprs children'))"
| "TransformUp_children [] f = Inr []"
| "TransformUp_children (c # cs) f =
     (case TransformUp c f of
        Inl err \<Rightarrow> Inl err
      | Inr c' \<Rightarrow>
          (case TransformUp_children cs f of
             Inl err \<Rightarrow> Inl err
           | Inr cs' \<Rightarrow> Inr (c' # cs')))"

text \<open>
  The function \<^verbatim>\<open>expandStars\<close> hands to \<^verbatim>\<open>plan.TransformUp\<close>, case by case.
  \<^verbatim>\<open>Schema()\<close> of a node is code outside these files and is the parameter \<open>Schema\<close>.
\<close>

definition expandStars_visit ::
  "(string \<Rightarrow> string) \<Rightarrow> (Node \<Rightarrow> Schema) \<Rightarrow> 'aliases \<Rightarrow> Node \<Rightarrow> error + Node"
where
  "expandStars_visit toLower Schema tableAliases n =
     (if Node_Resolved n then Inr n
      else
        (case n of
           Project projections child \<Rightarrow>
             (if \<not> Node_Resolved child then Inr n
              else
                (case expandStarsForExpressions toLower projections (Schema child) tableAliases of
                   Inl err \<Rightarrow> Inl err
                 | Inr expressions \<Rightarrow> Inr (Project expressions child)))
         | GroupBy selectedExprs groupByExprs child \<Rightarrow>
             (if \<not> Node_Resolved child then Inr n
              else
                (case expandStarsForExpressions toLower selectedExprs (Schema child) tableAliases of
                   Inl err \<Rightarrow> Inl err
                 | Inr aggregate \<Rightarrow> Inr (GroupBy aggregate groupByExprs child)))
         | _ \<Rightarrow> Inr n))"

text \<open>
  \<^verbatim>\<open>expandStars(ctx, a, n, scope)\<close>. The context opens a tracing span and the analyzer
  writes a log line; neither changes the result. \<^verbatim>\<open>getTableAliases\<close> is code outside
  these files and a parameter: it returns the alias map or an error.
\<close>

definition expandStars ::
  "(string \<Rightarrow> string) \<Rightarrow> (Node \<Rightarrow> Schema) \<Rightarrow> (Node \<Rightarrow> 'scope \<Rightarrow> error + 'aliases)
     \<Rightarrow> Node \<Rightarrow> 'scope \<Rightarrow> error + Node"
where
  "expandStars toLower Schema getTableAliases n scope =
     (case getTableAliases n scope of
        Inl err \<Rightarrow> Inl err
      | Inr tableAliases \<Rightarrow> TransformUp n (expandStars_visit toLower Schema tableAliases))"

text \<open>Applying a rule to the result of a rule: an error of the first run is the result.\<close>

definition thenRule :: "error + Node \<Rightarrow> (Node \<Rightarrow> error + Node) \<Rightarrow> error + Node" where
  "thenRule r rule = (case r of Inl err \<Rightarrow> Inl err | Inr n \<Rightarrow> rule n)"

text \<open>For concrete runs: the schema of a table leaf, and an alias collection that succeeds.\<close>

definition tableSchema :: "Node \<Rightarrow> Schema" where
  "tableSchema n = (case n of Table name resolved schema \<Rightarrow> schema | _ \<Rightarrow> [])"

definition noAliases :: "Node \<Rightarrow> unit \<Rightarrow> error + unit" where
  "noAliases n scope = Inr ()"

section \<open>The view registry\<close>

text \<open>
  Of the view registry the files at hand hold the tests only. A view is built by
  \<^verbatim>\<open>NewView(name, definition, textDefinition)\<close>; a key is a database name with a view
  name.
\<close>

record View =
  View_name :: string
  View_definition :: "Node option"
  View_textDefinition :: string

definition NewView :: "string \<Rightarrow> Node option \<Rightarrow> string \<Rightarrow> View" where
  "NewView name definition textDefinition =
     \<lparr>View_name = name, View_definition = definition, View_textDefinition = textDefinition\<rparr>"

type_synonym ViewKey = "string \<times> string"

type_synonym ViewRegistry = "ViewKey \<rightharpoonup> View"

text \<open>
  Modelled from the spec: the registry itself, whose code is missing from the files at
  hand (section 2: a catalog mapping a database and a view name to a stored view). A new
  registry holds no view. Every operation below returns its optional error with the
  registry it leaves.
\<close>

definition NewViewRegistry :: ViewRegistry where
  "NewViewRegistry = Map.empty"

text \<open>Modelled from the spec: \<^verbatim>\<open>Exists(db, name)\<close> (section 4.5), missing from the files at
  hand: whether the key is present.\<close>

definition Exists :: "ViewRegistry \<Rightarrow> string \<Rightarrow> string \<Rightarrow> bool" where
  "Exists r db name \<longleftrightarrow> r (db, name) \<noteq> None"

text \<open>Modelled from the spec: \<^verbatim>\<open>Register(db, view)\<close> (section 4.5), missing from the files
  at hand: fails with "view already exists" if the key of the database and the view's name
  is already present; otherwise inserts.\<close>

definition Register :: "ViewRegistry \<Rightarrow> string \<Rightarrow> View \<Rightarrow> error option \<times> ViewRegistry" where
  "Register r db view =
     (if Exists r db (View_name view)
      then (Some (ErrExistingView db (View_name view)), r)
      else (None, r((db, View_name view) \<mapsto> view)))"

text \<open>Modelled from the spec: \<^verbatim>\<open>View(db, name)\<close> (section 4.5), missing from the files at
  hand: fails with "view does not exist" if absent.\<close>

definition ViewRegistry_View :: "ViewRegistry \<Rightarrow> string \<Rightarrow> string \<Rightarrow> error + View" where
  "ViewRegistry_View r db name =
     (case r (db, name) of
        None \<Rightarrow> Inl (ErrNonExistingView db name)
      | Some view \<Rightarrow> Inr view)"

text \<open>Modelled from the spec: \<^verbatim>\<open>Delete(db, name)\<close> (section 4.5), missing from the files at
  hand: fails with "view does not exist" if absent; otherwise removes.\<close>

definition Delete :: "ViewRegistry \<Rightarrow> string \<Rightarrow> string \<Rightarrow> error option \<times> ViewRegistry" where
  "Delete r db name =
     (if Exists r db name
      then (None, r((db, name) := None))
      else (Some (ErrNonExistingView db name), r))"

text \<open>Modelled from the spec: the removal of every key of a batch, the second half of
  \<^verbatim>\<open>DeleteList\<close> (section 4.5), missing from the files at hand; a key that is absent is
  skipped.\<close>

fun deleteKeys :: "ViewKey list \<Rightarrow> ViewRegistry \<Rightarrow> ViewRegistry" where
  "deleteKeys [] r = r"
| "deleteKeys (key # keys) r = deleteKeys keys (r(key := None))"

text \<open>Modelled from the spec: \<^verbatim>\<open>DeleteList(keys, errIfNotExists)\<close> (section 4.5), missing
  from the files at hand: if \<open>errIfNotExists\<close> is true, the whole batch fails on the first
  missing key and nothing is deleted; if false, missing keys are skipped and every
  existing key of the batch is removed.\<close>

definition DeleteList :: "ViewRegistry \<Rightarrow> ViewKey list \<Rightarrow> bool \<Rightarrow> error option \<times> ViewRegistry" where
  "DeleteList r keys errIfNotExists =
     (if errIfNotExists
      then
        (case find (\<lambda>key. r key = None) keys of
           Some (db, name) \<Rightarrow> (Some (ErrNonExistingView db name), r)
         | None \<Rightarrow> (None, deleteKeys keys r))
      else (None, deleteKeys keys r))"

text \<open>The registry and the keys of the tests.\<close>

definition viewKeys :: "ViewKey list" where
  "viewKeys = [(''db1'', ''view1''), (''db1'', ''view2''), (''db2'', ''view1'')]"

definition registeredKeys :: ViewRegistry where
  "registeredKeys =
     [(''db1'', ''view1'') \<mapsto> NewView ''view1'' None [],
      (''db1'', ''view2'') \<mapsto> NewView ''view2'' None [],
      (''db2'', ''view1'') \<mapsto> NewView ''view1'' None []]"

section \<open>Setting session variables\<close>

text \<open>
  Of the plan node \<^verbatim>\<open>Set\<close> and of the session's variable store the files at hand hold
  the tests only. The default table \<^verbatim>\<open>sql.DefaultSessionConfig()\<close> maps a variable name
  to a value with its type (the fields \<^verbatim>\<open>Typ\<close> and \<^verbatim>\<open>Value\<close> the tests read); the table
  itself is compiled in elsewhere and is the parameter \<open>defaults\<close>.
\<close>

record TypedValue =
  TypedValue_Typ :: sql_type
  TypedValue_Value :: sql_value

type_synonym SessionConfig = "string \<rightharpoonup> TypedValue"

text \<open>
  Modelled from the spec: \<^verbatim>\<open>ctx.Set(name, typ, value)\<close> of the session's variable store,
  missing from the files at hand (section 4.4: typed get and set, scoped to one session;
  sections 3 and 6: variable names are case-insensitive). The store keeps a variable
  under its lower-cased name.
\<close>

definition Session_Set ::
  "(string \<Rightarrow> string) \<Rightarrow> SessionConfig \<Rightarrow> string \<Rightarrow> sql_type \<Rightarrow> sql_value \<Rightarrow> SessionConfig"
where
  "Session_Set toLower s name typ val =
     s(toLower name \<mapsto> \<lparr>TypedValue_Typ = typ, TypedValue_Value = val\<rparr>)"

text \<open>
  Modelled from the spec: \<^verbatim>\<open>ctx.Get(name)\<close> of the session's variable store, missing from
  the files at hand (section 4.4; sections 3 and 6 for the case-insensitive name). It
  returns a type and a value and no error; for a name never written these are the \<open>Null\<close>
  type and a null value, which is what section 4.4 says of a user variable read before
  any write.
\<close>

definition Session_Get ::
  "(string \<Rightarrow> string) \<Rightarrow> SessionConfig \<Rightarrow> string \<Rightarrow> sql_type \<times> sql_value"
where
  "Session_Get toLower s name =
     (case s (toLower name) of
        Some tv \<Rightarrow> (TypedValue_Typ tv, TypedValue_Value tv)
      | None \<Rightarrow> (Null, NilValue))"

text \<open>
  Modelled from the spec: the variables of a new session, missing from the files at hand
  (section 4.4: session creation seeds all session variables from the default table).
\<close>

definition NewBaseSession :: "SessionConfig \<Rightarrow> SessionConfig" where
  "NewBaseSession defaults = defaults"

text \<open>
  Modelled from the spec: the session variable that the target of an assignment names,
  missing from the files at hand (section 6: names are case-insensitive, \<open>@@name\<close> denotes
  a system variable, \<open>@@scope.name\<close> an explicitly scoped one and \<open>@name\<close> a user variable;
  section 3: the scope is \<open>Session\<close> or \<open>Global\<close>). The target is lower-cased. Without a
  scope it names a session variable, with or without the \<open>@@\<close>: the tests assign to \<open>foo\<close>
  and to \<open>@@baz\<close> and read \<open>foo\<close> and \<open>baz\<close>. A target scoped to \<open>global\<close> and a user
  variable name no session variable.
\<close>

definition sessionVariableName :: "(string \<Rightarrow> string) \<Rightarrow> string \<Rightarrow> string option" where
  "sessionVariableName toLower target =
     (let lowered = toLower target
      in if take 2 lowered = ''@@''
         then
           (let scoped = drop 2 lowered
            in if take 8 scoped = ''session.'' then Some (drop 8 scoped)
               else if take 7 scoped = ''global.'' then None
               else Some scoped)
         else if take 1 lowered = ''@'' then None
         else Some lowered)"

text \<open>
  Modelled from the spec: one assignment of a \<^verbatim>\<open>Set\<close> node to a session variable, missing
  from the files at hand (sections 4.4 and 8). An assignment is
  \<^verbatim>\<open>SetField(UnresolvedColumn(target), value)\<close>. A literal is stored with its own type and
  value; \<^verbatim>\<open>DEFAULT\<close> re-reads the default table and stores the pair found there, and
  changes nothing for a name without a default, a case the spec leaves open. The result
  \<open>None\<close> marks what this model does not cover and says nothing of it: an assignment to a
  global or a user variable, which live in other stores, and an expression of any other
  form.
\<close>

fun Set_assign ::
  "(string \<Rightarrow> string) \<Rightarrow> SessionConfig \<Rightarrow> Expression \<Rightarrow> SessionConfig \<Rightarrow> SessionConfig option"
where
  "Set_assign toLower defaults (SetField (UnresolvedColumn target) (Literal val typ)) s =
     (case sessionVariableName toLower target of
        Some name \<Rightarrow> Some (Session_Set toLower s name typ val)
      | None \<Rightarrow> None)"
| "Set_assign toLower defaults (SetField (UnresolvedColumn target) (DefaultColumn d)) s =
     (case sessionVariableName toLower target of
        Some name \<Rightarrow>
          (case defaults (toLower name) of
             Some tv \<Rightarrow>
               Some (Session_Set toLower s name (TypedValue_Typ tv) (TypedValue_Value tv))
           | None \<Rightarrow> Some s)
      | None \<Rightarrow> None)"
| "Set_assign toLower defaults e s = None"

text \<open>
  Modelled from the spec: the run of a whole \<^verbatim>\<open>Set\<close> node, missing from the files at hand:
  its assignments in order. \<open>Some s'\<close> is a run that returns no error and leaves the
  session \<open>s'\<close>; \<open>None\<close> is a node with an assignment outside the model.
\<close>

fun Set_RowIter ::
  "(string \<Rightarrow> string) \<Rightarrow> SessionConfig \<Rightarrow> Expression list \<Rightarrow> SessionConfig \<Rightarrow> SessionConfig option"
where
  "Set_RowIter toLower defaults [] s = Some s"
| "Set_RowIter toLower defaults (e # es) s =
     (case Set_assign toLower defaults e s of
        None \<Rightarrow> None
      | Some s' \<Rightarrow> Set_RowIter toLower defaults es s')"

text \<open>The session variable an assignment writes, and the assignments the model covers.\<close>

fun assignedVariable :: "(string \<Rightarrow> string) \<Rightarrow> Expression \<Rightarrow> string option" where
  "assignedVariable toLower (SetField (UnresolvedColumn target) val) =
     sessionVariableName toLower target"
| "assignedVariable toLower e = None"

fun isSessionAssignment :: "(string \<Rightarrow> string) \<Rightarrow> Expression \<Rightarrow> bool" where
  "isSessionAssignment toLower (SetField (UnresolvedColumn target) (Literal val typ)) \<longleftrightarrow>
     sessionVariableName toLower target \<noteq> None"
| "isSessionAssignment toLower (SetField (UnresolvedColumn target) (DefaultColumn d)) \<longleftrightarrow>
     sessionVariableName toLower target \<noteq> None"
| "isSessionAssignment toLower e \<longleftrightarrow> False"

text \<open>A default table for concrete runs.\<close>

definition exampleDefaults :: SessionConfig where
  "exampleDefaults =
     [''auto_increment_increment'' \<mapsto> \<lparr>TypedValue_Typ = Int64, TypedValue_Value = Int64Value 1\<rparr>,
      ''sql_select_limit'' \<mapsto> \<lparr>TypedValue_Typ = Int64, TypedValue_Value = Int64Value 2147483647\<rparr>]"

section \<open>Star expansion: the loops compute the expansion\<close>

lemma starColumns_acc:
  "starColumns toLower table i schema exprs =
     exprs @ map (\<lambda>j. GetField (i + j) (Column_Type (schema ! j)) (Column_Source (schema ! j))
                        (Column_Name (schema ! j)) (Column_Nullable (schema ! j)))
               (filter (\<lambda>j. starMatches toLower table (schema ! j)) [0..<length schema])"
proof (induction schema arbitrary: i exprs)
  case Nil
  show ?case by simp
next
  case (Cons col schema)
  have shift: "[0..<length (col # schema)] = 0 # map Suc [0..<length schema]"
    by (simp add: upt_conv_Cons map_Suc_upt del: upt_Suc)
  show ?case
    unfolding shift
    by (simp add: Cons.IH starMatches_def Let_def filter_map comp_def del: upt_Suc)
qed

lemma starColumns_starExpansion:
  "starColumns toLower table 0 schema [] = starExpansion toLower table schema"
  by (simp add: starColumns_acc starExpansion_def fieldRef_def)

lemma starExpansion_empty_iff:
  "starExpansion toLower table schema = [] \<longleftrightarrow>
     list_all (\<lambda>col. \<not> starMatches toLower table col) schema"
  by (auto simp: starExpansion_def filter_empty_conv list_all_iff all_set_conv_all_nth)

lemma missingTable_Star:
  "missingTable toLower schema (Star table) \<longleftrightarrow>
     table \<noteq> [] \<and> starExpansion toLower table schema = []"
  by (auto simp: starExpansion_empty_iff starMatches_def list_all_iff)

lemma expandLoop_ok:
  "list_all (\<lambda>e. \<not> missingTable toLower schema e) exprs \<Longrightarrow>
   expandLoop toLower exprs schema acc = Inr (acc @ expandedProjections toLower exprs schema)"
proof (induction exprs arbitrary: acc)
  case Nil
  show ?case by (simp add: expandedProjections_def)
next
  case (Cons e es)
  then have rest: "\<And>acc'. expandLoop toLower es schema acc' =
      Inr (acc' @ expandedProjections toLower es schema)"
    by simp
  show ?case
  proof (cases e)
    case (Star table)
    with Cons.prems have "\<not> (table \<noteq> [] \<and> starExpansion toLower table schema = [])"
      by (simp add: missingTable_Star del: missingTable.simps)
    with Star show ?thesis
      by (auto simp: rest starColumns_starExpansion expandedProjections_def)
  qed (simp_all add: rest expandedProjections_def)
qed

lemma expandLoop_fail:
  "list_all (\<lambda>e. \<not> missingTable toLower schema e) pre \<Longrightarrow>
   missingTable toLower schema e \<Longrightarrow>
   expandLoop toLower (pre @ e # post) schema acc = Inl (ErrTableNotFound (starTable e))"
proof (induction pre arbitrary: acc)
  case Nil
  then obtain table where e: "e = Star table"
    by (cases e) simp_all
  with Nil have "table \<noteq> [] \<and> starExpansion toLower table schema = []"
    by (simp add: missingTable_Star del: missingTable.simps)
  with e show ?case
    by (simp add: starColumns_starExpansion)
next
  case (Cons p pre)
  then have rest: "\<And>acc'. expandLoop toLower (pre @ e # post) schema acc' =
      Inl (ErrTableNotFound (starTable e))"
    by simp
  show ?case
  proof (cases p)
    case (Star table)
    with Cons.prems have "\<not> (table \<noteq> [] \<and> starExpansion toLower table schema = [])"
      by (simp add: missingTable_Star del: missingTable.simps)
    with Star show ?thesis
      by (auto simp: rest starColumns_starExpansion)
  qed (simp_all add: rest)
qed


lemma expandStarsForExpressions_char:
  "expandStarsForExpressions toLower exprs schema tableAliases =
     (case find (missingTable toLower schema) exprs of
        Some e \<Rightarrow> Inl (ErrTableNotFound (starTable e))
      | None \<Rightarrow> Inr (expandedProjections toLower exprs schema))"
proof (cases "find (missingTable toLower schema) exprs")
  case None
  then have "list_all (\<lambda>e. \<not> missingTable toLower schema e) exprs"
    by (simp add: find_None_iff list_all_iff)
  with None show ?thesis
    by (simp add: expandStarsForExpressions_def expandLoop_ok)
next
  case (Some e)
  then obtain i where i: "i < length exprs" "missingTable toLower schema (exprs ! i)"
      "e = exprs ! i" "\<forall>j<i. \<not> missingTable toLower schema (exprs ! j)"
    by (auto simp: find_Some_iff)
  have split: "exprs = take i exprs @ e # drop (Suc i) exprs"
    using i by (simp add: id_take_nth_drop)
  have pre: "list_all (\<lambda>e. \<not> missingTable toLower schema e) (take i exprs)"
    using i by (auto simp: list_all_iff in_set_conv_nth)
  have "expandLoop toLower (take i exprs @ e # drop (Suc i) exprs) schema [] =
      Inl (ErrTableNotFound (starTable e))"
    using pre i by (intro expandLoop_fail) simp_all
  with split Some show ?thesis
    by (simp add: expandStarsForExpressions_def)
qed

lemma missingTable_iff:
  "missingTable toLower schema e \<longleftrightarrow>
     (\<exists>table. e = Star table \<and> table \<noteq> [] \<and>
        (\<forall>col\<in>set schema. toLower table \<noteq> toLower (Column_Source col)))"
  by (cases e) (auto simp: list_all_iff)

lemma expandedProjections_explicit:
  "expandedProjections toLower exprs schema =
     concat (map (\<lambda>e. case e of
        Star table \<Rightarrow>
          map (\<lambda>i. GetField i (Column_Type (schema ! i)) (Column_Source (schema ! i))
                      (Column_Name (schema ! i)) (Column_Nullable (schema ! i)))
            (filter (\<lambda>i. table = [] \<or> toLower table = toLower (Column_Source (schema ! i)))
               [0..<length schema])
      | _ \<Rightarrow> [e]) exprs)"
proof -
  have one: "expandOne toLower schema e = (case e of
        Star table \<Rightarrow>
          map (\<lambda>i. GetField i (Column_Type (schema ! i)) (Column_Source (schema ! i))
                      (Column_Name (schema ! i)) (Column_Nullable (schema ! i)))
            (filter (\<lambda>i. table = [] \<or> toLower table = toLower (Column_Source (schema ! i)))
               [0..<length schema])
      | _ \<Rightarrow> [e])" for e
    by (cases e) (simp_all add: starExpansion_def starMatches_def fieldRef_def)
  show ?thesis
    unfolding expandedProjections_def by (rule arg_cong [where f = concat], rule map_cong) (simp_all only: one)
qed

text \<open>
  Claim C1. For every projection list and child schema, a successful star expansion
  returns the list in which each wildcard is replaced by one field reference per column
  of the child schema that the wildcard selects (every column when the wildcard has no
  table qualifier, otherwise the columns whose source table equals the qualifier after
  lower-casing both), in schema order, each reference carrying the column's position,
  type, source table, name and nullability, and in which every other expression stands
  unchanged at its place. The expansion succeeds whenever every qualified wildcard
  selects at least one column.
\<close>

theorem star_expansion_rewrites_wildcards:
  "(\<forall>out. expandStarsForExpressions toLower exprs schema tableAliases = Inr out \<longrightarrow>
      out = concat (map (\<lambda>e. case e of
        Star table \<Rightarrow>
          map (\<lambda>i. GetField i (Column_Type (schema ! i)) (Column_Source (schema ! i))
                      (Column_Name (schema ! i)) (Column_Nullable (schema ! i)))
            (filter (\<lambda>i. table = [] \<or> toLower table = toLower (Column_Source (schema ! i)))
               [0..<length schema])
      | _ \<Rightarrow> [e]) exprs))
   \<and> ((\<forall>table. Star table \<in> set exprs \<longrightarrow> table = [] \<or>
          (\<exists>col\<in>set schema. toLower table = toLower (Column_Source col))) \<longrightarrow>
       (\<exists>out. expandStarsForExpressions toLower exprs schema tableAliases = Inr out))"
proof (intro conjI allI impI)
  fix out
  assume "expandStarsForExpressions toLower exprs schema tableAliases = Inr out"
  then have "out = expandedProjections toLower exprs schema"
    by (simp add: expandStarsForExpressions_char split: option.splits)
  then show "out = concat (map (\<lambda>e. case e of
        Star table \<Rightarrow>
          map (\<lambda>i. GetField i (Column_Type (schema ! i)) (Column_Source (schema ! i))
                      (Column_Name (schema ! i)) (Column_Nullable (schema ! i)))
            (filter (\<lambda>i. table = [] \<or> toLower table = toLower (Column_Source (schema ! i)))
               [0..<length schema])
      | _ \<Rightarrow> [e]) exprs)"
    by (simp only: expandedProjections_explicit)
next
  assume ok: "\<forall>table. Star table \<in> set exprs \<longrightarrow> table = [] \<or>
          (\<exists>col\<in>set schema. toLower table = toLower (Column_Source col))"
  have "find (missingTable toLower schema) exprs = None"
    unfolding find_None_iff missingTable_iff using ok by blast
  then show "\<exists>out. expandStarsForExpressions toLower exprs schema tableAliases = Inr out"
    by (simp add: expandStarsForExpressions_char)
qed

theorem star_expansion_rewrites_wildcards_witness:
  "expandStarsForExpressions asciiToLower [Star [], UnresolvedColumn ''x'', Star ''T'']
      exampleSchema ()
   = Inr [GetField 0 Int64 ''t'' ''a'' False, GetField 1 LongText ''t'' ''b'' True,
      UnresolvedColumn ''x'',
      GetField 0 Int64 ''t'' ''a'' False, GetField 1 LongText ''t'' ''b'' True]"
proof -
  have lower: "asciiToLower ''T'' = ''t''" "asciiToLower ''t'' = ''t''"
    by code_simp+
  have "\<forall>table. Star table \<in> set [Star [], UnresolvedColumn ''x'', Star ''T''] \<longrightarrow> table = [] \<or>
          (\<exists>col\<in>set exampleSchema. asciiToLower table = asciiToLower (Column_Source col))"
    by (simp add: exampleSchema_def lower)
  with star_expansion_rewrites_wildcards
         [of asciiToLower "[Star [], UnresolvedColumn ''x'', Star ''T'']" exampleSchema "()"]
  obtain out where out: "expandStarsForExpressions asciiToLower
        [Star [], UnresolvedColumn ''x'', Star ''T''] exampleSchema () = Inr out"
     and eq: "out = concat (map (\<lambda>e. case e of
        Star table \<Rightarrow>
          map (\<lambda>i. GetField i (Column_Type (exampleSchema ! i)) (Column_Source (exampleSchema ! i))
                      (Column_Name (exampleSchema ! i)) (Column_Nullable (exampleSchema ! i)))
            (filter (\<lambda>i. table = [] \<or> asciiToLower table = asciiToLower (Column_Source (exampleSchema ! i)))
               [0..<length exampleSchema])
      | _ \<Rightarrow> [e]) [Star [], UnresolvedColumn ''x'', Star ''T''])"
    by blast
  have "out = [GetField 0 Int64 ''t'' ''a'' False, GetField 1 LongText ''t'' ''b'' True,
      UnresolvedColumn ''x'',
      GetField 0 Int64 ''t'' ''a'' False, GetField 1 LongText ''t'' ''b'' True]"
    unfolding eq by (simp add: exampleSchema_def lower upt_rec)
  with out show ?thesis by simp
qed

text \<open>
  Claim C2. Star expansion of a projection list fails exactly when the list holds a
  wildcard whose table qualifier is not empty and equals, after lower-casing, the source
  table of no column of the child schema; the error is then "table not found" for such a
  qualifier (for a single wildcard, its own). A wildcard with no qualifier over a schema
  of zero columns expands to the empty list with no error.
\<close>

theorem star_expansion_table_not_found:
  "((\<exists>err. expandStarsForExpressions toLower exprs schema tableAliases = Inl err) \<longleftrightarrow>
      (\<exists>table. Star table \<in> set exprs \<and> table \<noteq> [] \<and>
         (\<forall>col\<in>set schema. toLower table \<noteq> toLower (Column_Source col))))
   \<and> (\<forall>err. expandStarsForExpressions toLower exprs schema tableAliases = Inl err \<longrightarrow>
         (\<exists>table. err = ErrTableNotFound table \<and> Star table \<in> set exprs \<and> table \<noteq> [] \<and>
            (\<forall>col\<in>set schema. toLower table \<noteq> toLower (Column_Source col))))
   \<and> expandStarsForExpressions toLower [Star table] schema tableAliases =
         (if table \<noteq> [] \<and> (\<forall>col\<in>set schema. toLower table \<noteq> toLower (Column_Source col))
          then Inl (ErrTableNotFound table)
          else Inr (starExpansion toLower table schema))
   \<and> expandStarsForExpressions toLower [Star []] [] tableAliases = Inr []"
proof (intro conjI allI impI)
  show "(\<exists>err. expandStarsForExpressions toLower exprs schema tableAliases = Inl err) \<longleftrightarrow>
      (\<exists>table. Star table \<in> set exprs \<and> table \<noteq> [] \<and>
         (\<forall>col\<in>set schema. toLower table \<noteq> toLower (Column_Source col)))"
  proof (cases "find (missingTable toLower schema) exprs")
    case None
    then have "\<not> (\<exists>table. Star table \<in> set exprs \<and> table \<noteq> [] \<and>
         (\<forall>col\<in>set schema. toLower table \<noteq> toLower (Column_Source col)))"
      unfolding find_None_iff missingTable_iff by blast
    with None show ?thesis
      by (simp add: expandStarsForExpressions_char)
  next
    case (Some e)
    then have "e \<in> set exprs" "missingTable toLower schema e"
      by (auto simp: find_Some_iff)
    then have "\<exists>table. Star table \<in> set exprs \<and> table \<noteq> [] \<and>
         (\<forall>col\<in>set schema. toLower table \<noteq> toLower (Column_Source col))"
      unfolding missingTable_iff by blast
    with Some show ?thesis
      by (simp add: expandStarsForExpressions_char)
  qed
next
  fix err
  assume "expandStarsForExpressions toLower exprs schema tableAliases = Inl err"
  then obtain e where e: "find (missingTable toLower schema) exprs = Some e"
      and err: "err = ErrTableNotFound (starTable e)"
    by (auto simp: expandStarsForExpressions_char split: option.splits)
  from e have "e \<in> set exprs" "missingTable toLower schema e"
    by (auto simp: find_Some_iff)
  then obtain table where "e = Star table" "Star table \<in> set exprs" "table \<noteq> []"
      "\<forall>col\<in>set schema. toLower table \<noteq> toLower (Column_Source col)"
    unfolding missingTable_iff by blast
  with err show "\<exists>table. err = ErrTableNotFound table \<and> Star table \<in> set exprs \<and> table \<noteq> [] \<and>
            (\<forall>col\<in>set schema. toLower table \<noteq> toLower (Column_Source col))"
    by auto
next
  show "expandStarsForExpressions toLower [Star table] schema tableAliases =
         (if table \<noteq> [] \<and> (\<forall>col\<in>set schema. toLower table \<noteq> toLower (Column_Source col))
          then Inl (ErrTableNotFound table)
          else Inr (starExpansion toLower table schema))"
    by (simp add: expandStarsForExpressions_char expandedProjections_def list_all_iff)
next
  show "expandStarsForExpressions toLower [Star []] [] tableAliases = Inr []"
    by (simp add: expandStarsForExpressions_def)
qed

theorem star_expansion_table_not_found_witness:
  "expandStarsForExpressions asciiToLower [Star ''t'', Star ''Missing''] exampleSchema ()
     = Inl (ErrTableNotFound ''Missing'')
   \<and> expandStarsForExpressions asciiToLower [Star ''T''] exampleSchema ()
     = Inr [GetField 0 Int64 ''t'' ''a'' False, GetField 1 LongText ''t'' ''b'' True]
   \<and> expandStarsForExpressions asciiToLower [Star ''t''] [] () = Inl (ErrTableNotFound ''t'')
   \<and> expandStarsForExpressions asciiToLower [Star []] [] () = Inr []"
proof -
  have lower: "asciiToLower ''T'' = ''t''" "asciiToLower ''t'' = ''t''"
      "asciiToLower ''Missing'' = ''missing''"
    by code_simp+
  have "\<exists>table. Star table \<in> set [Star ''t'', Star ''Missing''] \<and> table \<noteq> [] \<and>
      (\<forall>col\<in>set exampleSchema. asciiToLower table \<noteq> asciiToLower (Column_Source col))"
    by (rule exI [of _ "''Missing''"]) (simp add: exampleSchema_def lower)
  then have "\<exists>err. expandStarsForExpressions asciiToLower [Star ''t'', Star ''Missing'']
          exampleSchema () = Inl err"
    using star_expansion_table_not_found
            [of asciiToLower "[Star ''t'', Star ''Missing'']" exampleSchema "()", THEN conjunct1]
    by simp
  then obtain err where err: "expandStarsForExpressions asciiToLower
      [Star ''t'', Star ''Missing''] exampleSchema () = Inl err"
    by blast
  then have "\<exists>table. err = ErrTableNotFound table \<and>
      Star table \<in> set [Star ''t'', Star ''Missing''] \<and> table \<noteq> [] \<and>
      (\<forall>col\<in>set exampleSchema. asciiToLower table \<noteq> asciiToLower (Column_Source col))"
    using star_expansion_table_not_found
            [of asciiToLower "[Star ''t'', Star ''Missing'']" exampleSchema "()",
             THEN conjunct2, THEN conjunct1]
    by blast
  then have "err = ErrTableNotFound ''Missing''"
    by (auto simp: exampleSchema_def lower)
  with err have first: "expandStarsForExpressions asciiToLower
      [Star ''t'', Star ''Missing''] exampleSchema () = Inl (ErrTableNotFound ''Missing'')"
    by simp
  have second: "expandStarsForExpressions asciiToLower [Star ''T''] exampleSchema ()
     = Inr [GetField 0 Int64 ''t'' ''a'' False, GetField 1 LongText ''t'' ''b'' True]"
    using star_expansion_table_not_found [of asciiToLower _ exampleSchema "()" "''T''"]
    by (simp add: exampleSchema_def lower starExpansion_def starMatches_def fieldRef_def upt_rec)
  have third: "expandStarsForExpressions asciiToLower [Star ''t''] [] () = Inl (ErrTableNotFound ''t'')"
    using star_expansion_table_not_found [of asciiToLower _ "[]" "()" "''t''"]
    by simp
  have fourth: "expandStarsForExpressions asciiToLower [Star []] [] () = Inr []"
    by (rule star_expansion_table_not_found [of asciiToLower "[]" "[]" "()" "[]",
          THEN conjunct2, THEN conjunct2, THEN conjunct2])
  from first second third fourth show ?thesis by simp
qed

subsection \<open>Indices of the generated field references\<close>

lemma starExpansion_indices:
  "e \<in> set (starExpansion toLower table schema) \<longleftrightarrow>
     (\<exists>i<length schema. starMatches toLower table (schema ! i) \<and> e = fieldRef schema i)"
  by (auto simp: starExpansion_def)

text \<open>
  Claim C9. The index stored in each field reference a star expansion generates is the
  position of its column in the whole child schema: the expansion of one wildcard is the
  list of references at the positions of the selected columns, so the positions of a
  qualified expansion are not renumbered; in any expanded projection list a field
  reference either stood in the input list or carries a position of the schema whose
  column has the reference's type, source table, name and nullability. The expansion of
  \<open>t.*\<close> over the schema \<open>[u.a, t.b]\<close> is the one reference with index 1.
\<close>

theorem star_expansion_index_is_schema_position:
  "(\<forall>out. expandStarsForExpressions toLower [Star table] schema tableAliases = Inr out \<longrightarrow>
      out = map (\<lambda>i. GetField i (Column_Type (schema ! i)) (Column_Source (schema ! i))
                        (Column_Name (schema ! i)) (Column_Nullable (schema ! i)))
              (filter (\<lambda>i. table = [] \<or> toLower table = toLower (Column_Source (schema ! i)))
                 [0..<length schema]))
   \<and> (\<forall>out i ty src nm nl.
        expandStarsForExpressions toLower exprs schema tableAliases = Inr out \<longrightarrow>
        GetField i ty src nm nl \<in> set out \<longrightarrow>
        GetField i ty src nm nl \<in> set exprs \<or>
        (i < length schema \<and>
         schema ! i = \<lparr>Column_Name = nm, Column_Type = ty, Column_Source = src,
                        Column_Nullable = nl\<rparr>))
   \<and> expandStarsForExpressions asciiToLower [Star ''t'']
        [\<lparr>Column_Name = ''a'', Column_Type = Int64, Column_Source = ''u'', Column_Nullable = False\<rparr>,
         \<lparr>Column_Name = ''b'', Column_Type = LongText, Column_Source = ''t'', Column_Nullable = True\<rparr>]
        tableAliases
      = Inr [GetField 1 LongText ''t'' ''b'' True]"
proof (intro conjI allI impI)
  fix out
  assume "expandStarsForExpressions toLower [Star table] schema tableAliases = Inr out"
  then have "out = expandedProjections toLower [Star table] schema"
    by (simp add: expandStarsForExpressions_char split: option.splits)
  then show "out = map (\<lambda>i. GetField i (Column_Type (schema ! i)) (Column_Source (schema ! i))
                        (Column_Name (schema ! i)) (Column_Nullable (schema ! i)))
              (filter (\<lambda>i. table = [] \<or> toLower table = toLower (Column_Source (schema ! i)))
                 [0..<length schema])"
    by (simp add: expandedProjections_explicit)
next
  fix out i ty src nm nl
  assume "expandStarsForExpressions toLower exprs schema tableAliases = Inr out"
  then have out: "out = expandedProjections toLower exprs schema"
    by (simp add: expandStarsForExpressions_char split: option.splits)
  assume "GetField i ty src nm nl \<in> set out"
  with out obtain e where e: "e \<in> set exprs" "GetField i ty src nm nl \<in> set (expandOne toLower schema e)"
    by (auto simp: expandedProjections_def)
  show "GetField i ty src nm nl \<in> set exprs \<or>
        (i < length schema \<and>
         schema ! i = \<lparr>Column_Name = nm, Column_Type = ty, Column_Source = src,
                        Column_Nullable = nl\<rparr>)"
  proof (cases e)
    case (Star t)
    with e obtain j where "j < length schema" "GetField i ty src nm nl = fieldRef schema j"
      by (auto simp: starExpansion_indices)
    then show ?thesis
      by (simp add: fieldRef_def)
  qed (use e in auto)
next
  have lower: "asciiToLower ''t'' = ''t''" "asciiToLower ''u'' = ''u''"
    by code_simp+
  show "expandStarsForExpressions asciiToLower [Star ''t'']
        [\<lparr>Column_Name = ''a'', Column_Type = Int64, Column_Source = ''u'', Column_Nullable = False\<rparr>,
         \<lparr>Column_Name = ''b'', Column_Type = LongText, Column_Source = ''t'', Column_Nullable = True\<rparr>]
        tableAliases
      = Inr [GetField 1 LongText ''t'' ''b'' True]"
    by (simp add: expandStarsForExpressions_def lower)
qed

theorem star_expansion_index_is_schema_position_witness:
  "expandStarsForExpressions asciiToLower [GetField 7 Int64 ''v'' ''c'' False, Star ''T'']
     [\<lparr>Column_Name = ''a'', Column_Type = Int64, Column_Source = ''u'', Column_Nullable = False\<rparr>,
      \<lparr>Column_Name = ''b'', Column_Type = LongText, Column_Source = ''t'', Column_Nullable = True\<rparr>]
     ()
   = Inr [GetField 7 Int64 ''v'' ''c'' False, GetField 1 LongText ''t'' ''b'' True]
   \<and> (1::nat) < length
     [\<lparr>Column_Name = ''a'', Column_Type = Int64, Column_Source = ''u'', Column_Nullable = False\<rparr>,
      \<lparr>Column_Name = ''b'', Column_Type = LongText, Column_Source = ''t'', Column_Nullable = True\<rparr>]
   \<and> [\<lparr>Column_Name = ''a'', Column_Type = Int64, Column_Source = ''u'', Column_Nullable = False\<rparr>,
      \<lparr>Column_Name = ''b'', Column_Type = LongText, Column_Source = ''t'', Column_Nullable = True\<rparr>] ! 1
     = \<lparr>Column_Name = ''b'', Column_Type = LongText, Column_Source = ''t'', Column_Nullable = True\<rparr>"
proof -
  let ?schema = "[\<lparr>Column_Name = ''a'', Column_Type = Int64, Column_Source = ''u'', Column_Nullable = False\<rparr>,
      \<lparr>Column_Name = ''b'', Column_Type = LongText, Column_Source = ''t'', Column_Nullable = True\<rparr>]"
  let ?exprs = "[GetField 7 Int64 ''v'' ''c'' False, Star ''T'']"
  have lower: "asciiToLower ''t'' = ''t''" "asciiToLower ''u'' = ''u''" "asciiToLower ''T'' = ''t''"
    by code_simp+
  have run: "expandStarsForExpressions asciiToLower ?exprs ?schema ()
      = Inr [GetField 7 Int64 ''v'' ''c'' False, GetField 1 LongText ''t'' ''b'' True]"
    by (simp add: expandStarsForExpressions_def lower)
  have mem: "GetField 1 LongText ''t'' ''b'' True
      \<in> set [GetField 7 Int64 ''v'' ''c'' False, GetField 1 LongText ''t'' ''b'' True]"
    by simp
  have "GetField 1 LongText ''t'' ''b'' True \<in> set ?exprs \<or>
        (1 < length ?schema \<and>
         ?schema ! 1 = \<lparr>Column_Name = ''b'', Column_Type = LongText, Column_Source = ''t'',
                        Column_Nullable = True\<rparr>)"
    using star_expansion_index_is_schema_position
            [of asciiToLower _ ?schema "()" ?exprs, THEN conjunct2, THEN conjunct1] run mem
    by blast
  with run show ?thesis by simp
qed

section \<open>System and user variables: evaluation and resolution\<close>







section \<open>Replication commands need a controller\<close>



section \<open>The rule \<^verbatim>\<open>expandStars\<close> on resolved trees\<close>

lemma TransformUp_children_resolved:
  "(\<And>c. c \<in> set cs \<Longrightarrow> Node_Resolved c \<Longrightarrow> TransformUp c f = Inr c) \<Longrightarrow>
   list_all Node_Resolved cs \<Longrightarrow> TransformUp_children cs f = Inr cs"
  by (induction cs) simp_all

lemma TransformUp_resolved:
  assumes unchanged: "\<And>m. Node_Resolved m \<Longrightarrow> f m = Inr m"
  shows "Node_Resolved n \<Longrightarrow> TransformUp n f = Inr n"
proof (induction n)
  case (Project projections child)
  then show ?case by (simp add: unchanged)
next
  case (GroupBy selectedExprs groupByExprs child)
  then show ?case by (simp add: unchanged)
next
  case (Table name resolved schema)
  then show ?case by (simp add: unchanged)
next
  case (OtherNode tag exprs children)
  then have "TransformUp_children children f = Inr children"
    by (intro TransformUp_children_resolved) simp_all
  with OtherNode.prems show ?case by (simp add: unchanged)
qed

lemma expandStars_visit_resolved:
  "Node_Resolved n \<Longrightarrow> expandStars_visit toLower Schema tableAliases n = Inr n"
  by (simp add: expandStars_visit_def)

lemma expandStars_resolved:
  "Node_Resolved n \<Longrightarrow>
   expandStars toLower Schema getTableAliases n scope =
     (case getTableAliases n scope of Inl err \<Rightarrow> Inl err | Inr tableAliases \<Rightarrow> Inr n)"
  by (simp add: expandStars_def TransformUp_resolved expandStars_visit_resolved
        split: sum.splits)

text \<open>
  Claim C4 (amended). The function the rule applies at each node, which
  \<^verbatim>\<open>TransformUp\<close> calls on the node rebuilt from its already rewritten children, returns
  that node unchanged, with no error, when the node is resolved, and when the node is a
  \<^verbatim>\<open>Project\<close> or a \<^verbatim>\<open>GroupBy\<close> whose child is not resolved. Hence, when the alias
  collection succeeds, \<^verbatim>\<open>expandStars\<close> returns a resolved tree as it is with no error
  (when the collection fails, its error is the result), and running \<^verbatim>\<open>expandStars\<close> on the
  result of a run on a resolved tree gives the result of the single run. Nothing is said
  of the whole rule on a \<^verbatim>\<open>Project\<close> or \<^verbatim>\<open>GroupBy\<close> whose child is unresolved when the
  rule starts.
\<close>

theorem expandStars_idempotent:
  "(Node_Resolved n \<longrightarrow> expandStars_visit toLower Schema tableAliases n = Inr n)
   \<and> (\<not> Node_Resolved child \<longrightarrow>
        expandStars_visit toLower Schema tableAliases (Project projections child)
          = Inr (Project projections child)
        \<and> expandStars_visit toLower Schema tableAliases (GroupBy selectedExprs groupByExprs child)
          = Inr (GroupBy selectedExprs groupByExprs child))
   \<and> (Node_Resolved n \<longrightarrow>
        expandStars toLower Schema getTableAliases n scope =
          (case getTableAliases n scope of
             Inl err \<Rightarrow> Inl err
           | Inr aliases \<Rightarrow> Inr n)
        \<and> thenRule (expandStars toLower Schema getTableAliases n scope)
              (\<lambda>n'. expandStars toLower Schema getTableAliases n' scope)
          = expandStars toLower Schema getTableAliases n scope)"
proof (intro conjI impI)
  show "expandStars_visit toLower Schema tableAliases n = Inr n" if "Node_Resolved n"
    using that by (rule expandStars_visit_resolved)
next
  assume "\<not> Node_Resolved child"
  then show "expandStars_visit toLower Schema tableAliases (Project projections child)
      = Inr (Project projections child)"
    by (simp add: expandStars_visit_def)
next
  assume "\<not> Node_Resolved child"
  then show "expandStars_visit toLower Schema tableAliases
      (GroupBy selectedExprs groupByExprs child) = Inr (GroupBy selectedExprs groupByExprs child)"
    by (simp add: expandStars_visit_def)
next
  assume "Node_Resolved n"
  then show "expandStars toLower Schema getTableAliases n scope =
      (case getTableAliases n scope of Inl err \<Rightarrow> Inl err | Inr aliases \<Rightarrow> Inr n)"
    by (rule expandStars_resolved)
next
  assume "Node_Resolved n"
  then have once: "expandStars toLower Schema getTableAliases n scope =
      (case getTableAliases n scope of Inl err \<Rightarrow> Inl err | Inr aliases \<Rightarrow> Inr n)"
    by (rule expandStars_resolved)
  show "thenRule (expandStars toLower Schema getTableAliases n scope)
      (\<lambda>n'. expandStars toLower Schema getTableAliases n' scope)
    = expandStars toLower Schema getTableAliases n scope"
    by (cases "getTableAliases n scope") (simp_all add: once thenRule_def)
qed

theorem expandStars_idempotent_witness:
  "expandStars asciiToLower tableSchema noAliases
     (Project [GetField 0 Int64 ''t'' ''a'' False] (Table ''t'' True exampleSchema)) ()
     = Inr (Project [GetField 0 Int64 ''t'' ''a'' False] (Table ''t'' True exampleSchema))
   \<and> thenRule
       (expandStars asciiToLower tableSchema noAliases
          (Project [GetField 0 Int64 ''t'' ''a'' False] (Table ''t'' True exampleSchema)) ())
       (\<lambda>n'. expandStars asciiToLower tableSchema noAliases n' ())
     = Inr (Project [GetField 0 Int64 ''t'' ''a'' False] (Table ''t'' True exampleSchema))
   \<and> expandStars_visit asciiToLower tableSchema ()
       (Project [Star []] (Table ''t'' False exampleSchema))
     = Inr (Project [Star []] (Table ''t'' False exampleSchema))
   \<and> expandStars_visit asciiToLower tableSchema ()
       (GroupBy [Star []] [] (Table ''t'' False exampleSchema))
     = Inr (GroupBy [Star []] [] (Table ''t'' False exampleSchema))"
proof -
  let ?n = "Project [GetField 0 Int64 ''t'' ''a'' False] (Table ''t'' True exampleSchema)"
  let ?child = "Table ''t'' False exampleSchema"
  have resolved: "Node_Resolved ?n" and unresolved: "\<not> Node_Resolved ?child"
    by simp_all
  note all = expandStars_idempotent
    [of ?n asciiToLower tableSchema "()" ?child "[Star []]" "[Star []]" "[]" noAliases "()"]
  from all resolved have whole: "expandStars asciiToLower tableSchema noAliases ?n () =
      (case noAliases ?n () of Inl err \<Rightarrow> Inl err | Inr aliases \<Rightarrow> Inr ?n)"
    by blast
  then have once: "expandStars asciiToLower tableSchema noAliases ?n () = Inr ?n"
    by (simp add: noAliases_def)
  from all resolved have "thenRule (expandStars asciiToLower tableSchema noAliases ?n ())
      (\<lambda>n'. expandStars asciiToLower tableSchema noAliases n' ())
    = expandStars asciiToLower tableSchema noAliases ?n ()"
    by blast
  then have twice: "thenRule (expandStars asciiToLower tableSchema noAliases ?n ())
      (\<lambda>n'. expandStars asciiToLower tableSchema noAliases n' ()) = Inr ?n"
    by (rule trans [OF _ once])
  note once twice
  moreover from all unresolved have "expandStars_visit asciiToLower tableSchema ()
      (Project [Star []] ?child) = Inr (Project [Star []] ?child)"
    by blast
  moreover from all unresolved have "expandStars_visit asciiToLower tableSchema ()
      (GroupBy [Star []] [] ?child) = Inr (GroupBy [Star []] [] ?child)"
    by blast
  ultimately show ?thesis by simp
qed

text \<open>
  The rule as a whole does not return every \<^verbatim>\<open>Project\<close> whose child is not yet
  resolved unchanged: the child below is an unresolved projection over a resolved table,
  the rule expands it first, and the outer node comes back with the expanded child.
\<close>

theorem expandStars_changes_unresolved_child_counterexample:
  "\<not> Node_Resolved (Project [Star []] (Table ''t'' True exampleSchema))
   \<and> expandStars asciiToLower tableSchema noAliases
       (Project [UnresolvedColumn ''x''] (Project [Star []] (Table ''t'' True exampleSchema))) ()
     = Inr (Project [UnresolvedColumn ''x'']
             (Project [GetField 0 Int64 ''t'' ''a'' False, GetField 1 LongText ''t'' ''b'' True]
                (Table ''t'' True exampleSchema)))
   \<and> expandStars asciiToLower tableSchema noAliases
       (Project [UnresolvedColumn ''x''] (Project [Star []] (Table ''t'' True exampleSchema))) ()
     \<noteq> Inr (Project [UnresolvedColumn ''x'']
             (Project [Star []] (Table ''t'' True exampleSchema)))"
  by (simp add: expandStars_def noAliases_def expandStars_visit_def tableSchema_def
        expandStarsForExpressions_def exampleSchema_def)

text \<open>
  Two runs of the whole rule. \<^verbatim>\<open>TransformUp\<close> rewrites the children before it visits a
  node, so the guards above are read at the node rebuilt from its new children: the inner
  projection of the second run is expanded although the outer one cannot be yet.
\<close>

lemma expandStars_expands_resolved_child:
  "expandStars asciiToLower tableSchema noAliases
     (Project [Star []] (Table ''t'' True exampleSchema)) ()
   = Inr (Project [GetField 0 Int64 ''t'' ''a'' False, GetField 1 LongText ''t'' ''b'' True]
           (Table ''t'' True exampleSchema))"
  by (simp add: expandStars_def noAliases_def expandStars_visit_def tableSchema_def
        expandStarsForExpressions_def exampleSchema_def)

lemma expandStars_nested_projection:
  "expandStars asciiToLower tableSchema noAliases
     (Project [UnresolvedColumn ''x''] (Project [Star []] (Table ''t'' True exampleSchema))) ()
   = Inr (Project [UnresolvedColumn ''x'']
           (Project [GetField 0 Int64 ''t'' ''a'' False, GetField 1 LongText ''t'' ''b'' True]
              (Table ''t'' True exampleSchema)))"
  by (simp add: expandStars_def noAliases_def expandStars_visit_def tableSchema_def
        expandStarsForExpressions_def exampleSchema_def)

text \<open>
  The expanding branches of the function applied at each node: a \<^verbatim>\<open>Project\<close> or
  \<^verbatim>\<open>GroupBy\<close> that is not resolved while its child is gets a new node with the expanded
  list over the same child (and the same grouping expressions), or the error of the
  expansion.
\<close>

theorem expandStars_visit_replaces_projections:
  "Node_Resolved child \<Longrightarrow>
   (\<not> list_all Expression_Resolved projections \<longrightarrow>
      expandStars_visit toLower Schema tableAliases (Project projections child) =
        (case expandStarsForExpressions toLower projections (Schema child) tableAliases of
           Inl err \<Rightarrow> Inl err
         | Inr expressions \<Rightarrow> Inr (Project expressions child)))
   \<and> (\<not> (list_all Expression_Resolved selectedExprs \<and>
           list_all Expression_Resolved groupByExprs) \<longrightarrow>
      expandStars_visit toLower Schema tableAliases (GroupBy selectedExprs groupByExprs child) =
        (case expandStarsForExpressions toLower selectedExprs (Schema child) tableAliases of
           Inl err \<Rightarrow> Inl err
         | Inr aggregate \<Rightarrow> Inr (GroupBy aggregate groupByExprs child)))"
  by (simp add: expandStars_visit_def)

theorem expandStars_visit_replaces_projections_witness:
  "expandStars_visit asciiToLower tableSchema ()
     (Project [Star ''T''] (Table ''t'' True exampleSchema))
   = Inr (Project [GetField 0 Int64 ''t'' ''a'' False, GetField 1 LongText ''t'' ''b'' True]
           (Table ''t'' True exampleSchema))
   \<and> expandStars_visit asciiToLower tableSchema ()
     (GroupBy [Star ''u''] [GetField 0 Int64 ''t'' ''a'' False] (Table ''t'' True exampleSchema))
   = Inl (ErrTableNotFound ''u'')"
proof -
  let ?child = "Table ''t'' True exampleSchema"
  have lower: "asciiToLower ''T'' = ''t''" "asciiToLower ''t'' = ''t''"
      "asciiToLower ''u'' = ''u''"
    by code_simp+
  have resolved: "Node_Resolved ?child"
    by simp
  note visit = expandStars_visit_replaces_projections
    [OF resolved, of "[Star ''T'']" asciiToLower tableSchema "()" "[Star ''u'']"
       "[GetField 0 Int64 ''t'' ''a'' False]"]
  have "expandStars_visit asciiToLower tableSchema () (Project [Star ''T''] ?child) =
      (case expandStarsForExpressions asciiToLower [Star ''T''] (tableSchema ?child) () of
         Inl err \<Rightarrow> Inl err
       | Inr expressions \<Rightarrow> Inr (Project expressions ?child))"
    using visit [THEN conjunct1] by simp
  then have first: "expandStars_visit asciiToLower tableSchema () (Project [Star ''T''] ?child)
      = Inr (Project [GetField 0 Int64 ''t'' ''a'' False, GetField 1 LongText ''t'' ''b'' True]
              ?child)"
    by (simp add: tableSchema_def expandStarsForExpressions_def exampleSchema_def lower)
  have "expandStars_visit asciiToLower tableSchema ()
      (GroupBy [Star ''u''] [GetField 0 Int64 ''t'' ''a'' False] ?child) =
      (case expandStarsForExpressions asciiToLower [Star ''u''] (tableSchema ?child) () of
         Inl err \<Rightarrow> Inl err
       | Inr aggregate \<Rightarrow> Inr (GroupBy aggregate [GetField 0 Int64 ''t'' ''a'' False] ?child))"
    using visit [THEN conjunct2] by simp
  then have second: "expandStars_visit asciiToLower tableSchema ()
      (GroupBy [Star ''u''] [GetField 0 Int64 ''t'' ''a'' False] ?child)
      = Inl (ErrTableNotFound ''u'')"
    by (simp add: tableSchema_def expandStarsForExpressions_def exampleSchema_def lower)
  from first second show ?thesis by simp
qed

section \<open>The view registry: registering, looking up, deleting\<close>

lemma deleteKeys_lookup:
  "deleteKeys keys r key = (if key \<in> set keys then None else r key)"
  by (induction keys arbitrary: r) auto

text \<open>
  Claim C5. With \<open>errIfNotExists\<close> true, \<open>DeleteList\<close> over a key list that holds a key
  missing from the registry returns the "view does not exist" error of a missing key of
  the list and leaves the registry as it was; when every key exists it succeeds and
  removes them all. With \<open>errIfNotExists\<close> false it always succeeds, and afterwards the
  registry holds exactly the former entries whose key is not in the list.
\<close>

theorem DeleteList_atomic_or_lenient:
  "((\<exists>key\<in>set keys. r key = None) \<longrightarrow>
      (\<exists>db name. (db, name) \<in> set keys \<and> r (db, name) = None \<and>
         DeleteList r keys True = (Some (ErrNonExistingView db name), r)))
   \<and> ((\<forall>key\<in>set keys. r key \<noteq> None) \<longrightarrow>
      fst (DeleteList r keys True) = None \<and>
      (\<forall>key. snd (DeleteList r keys True) key = (if key \<in> set keys then None else r key)))
   \<and> fst (DeleteList r keys False) = None
   \<and> (\<forall>key. snd (DeleteList r keys False) key = (if key \<in> set keys then None else r key))"
proof (intro conjI impI)
  assume "\<exists>key\<in>set keys. r key = None"
  then have "find (\<lambda>key. r key = None) keys \<noteq> None"
    unfolding find_None_iff by blast
  then obtain k where k: "find (\<lambda>key. r key = None) keys = Some k"
    by blast
  then have "k \<in> set keys" "r k = None"
    by (auto simp: find_Some_iff)
  with k show "\<exists>db name. (db, name) \<in> set keys \<and> r (db, name) = None \<and>
         DeleteList r keys True = (Some (ErrNonExistingView db name), r)"
    by (cases k) (auto simp: DeleteList_def)
next
  assume "\<forall>key\<in>set keys. r key \<noteq> None"
  then have none: "find (\<lambda>key. r key = None) keys = None"
    by (simp add: find_None_iff)
  then show "fst (DeleteList r keys True) = None"
    by (simp add: DeleteList_def)
  from none show "\<forall>key. snd (DeleteList r keys True) key = (if key \<in> set keys then None else r key)"
    by (simp add: DeleteList_def deleteKeys_lookup)
next
  show "fst (DeleteList r keys False) = None"
    by (simp add: DeleteList_def)
  show "\<forall>key. snd (DeleteList r keys False) key = (if key \<in> set keys then None else r key)"
    by (simp add: DeleteList_def deleteKeys_lookup)
qed

theorem DeleteList_atomic_or_lenient_witness:
  "DeleteList registeredKeys (viewKeys @ [(''random'', ''random'')]) True
     = (Some (ErrNonExistingView ''random'' ''random''), registeredKeys)
   \<and> fst (DeleteList registeredKeys (viewKeys @ [(''random'', ''random'')]) False) = None
   \<and> snd (DeleteList registeredKeys (viewKeys @ [(''random'', ''random'')]) False) = Map.empty
   \<and> fst (DeleteList registeredKeys viewKeys True) = None
   \<and> snd (DeleteList registeredKeys viewKeys True) = Map.empty"
proof -
  let ?keys = "viewKeys @ [(''random'', ''random'')]"
  note all = DeleteList_atomic_or_lenient [of ?keys registeredKeys]
  note exact = DeleteList_atomic_or_lenient [of viewKeys registeredKeys]
  have missing: "\<exists>key\<in>set ?keys. registeredKeys key = None"
    by (simp add: registeredKeys_def viewKeys_def)
  with all obtain db name where hit: "(db, name) \<in> set ?keys" "registeredKeys (db, name) = None"
      "DeleteList registeredKeys ?keys True = (Some (ErrNonExistingView db name), registeredKeys)"
    by blast
  from hit(1,2) have "db = ''random'' \<and> name = ''random''"
    by (auto simp: registeredKeys_def viewKeys_def split: if_splits)
  with hit(3) have first: "DeleteList registeredKeys ?keys True
      = (Some (ErrNonExistingView ''random'' ''random''), registeredKeys)"
    by simp
  from all have second: "fst (DeleteList registeredKeys ?keys False) = None"
    by blast
  have gone: "(if key \<in> set ?keys then None else registeredKeys key) = None" for key
    by (simp add: registeredKeys_def viewKeys_def)
  from all have "\<forall>key. snd (DeleteList registeredKeys ?keys False) key
      = (if key \<in> set ?keys then None else registeredKeys key)"
    by blast
  then have third: "snd (DeleteList registeredKeys ?keys False) = Map.empty"
    by (intro ext) (simp only: gone)
  have present: "\<forall>key\<in>set viewKeys. registeredKeys key \<noteq> None"
    by (simp add: registeredKeys_def viewKeys_def)
  with exact have fourth: "fst (DeleteList registeredKeys viewKeys True) = None"
    by blast
  have gone': "(if key \<in> set viewKeys then None else registeredKeys key) = None" for key
    by (simp add: registeredKeys_def viewKeys_def)
  from exact present have "\<forall>key. snd (DeleteList registeredKeys viewKeys True) key
      = (if key \<in> set viewKeys then None else registeredKeys key)"
    by blast
  then have fifth: "snd (DeleteList registeredKeys viewKeys True) = Map.empty"
    by (intro ext) (simp only: gone')
  from first second third fourth fifth show ?thesis by simp
qed

text \<open>
  Claim C6. \<open>Register\<close> fails with "view already exists" exactly when the key of the
  database and the view's name is present, and inserts the view otherwise;
  \<open>ViewRegistry_View\<close> and \<open>Delete\<close> fail with "view does not exist" exactly when the key
  is absent, and otherwise return the stored view, respectively remove the key. Looking
  up a view just registered returns that view, registering it a second time fails, and a
  lookup after a delete fails.
\<close>

theorem view_registry_register_view_delete:
  "Register r db view =
     (if r (db, View_name view) \<noteq> None
      then (Some (ErrExistingView db (View_name view)), r)
      else (None, r((db, View_name view) \<mapsto> view)))
   \<and> ViewRegistry_View r db name =
     (case r (db, name) of
        None \<Rightarrow> Inl (ErrNonExistingView db name)
      | Some found \<Rightarrow> Inr found)
   \<and> Delete r db name =
     (if r (db, name) = None
      then (Some (ErrNonExistingView db name), r)
      else (None, r((db, name) := None)))
   \<and> (r (db, View_name view) = None \<longrightarrow>
        ViewRegistry_View (snd (Register r db view)) db (View_name view) = Inr view)
   \<and> (r (db, View_name view) = None \<longrightarrow>
        fst (Register (snd (Register r db view)) db view)
          = Some (ErrExistingView db (View_name view)))
   \<and> ViewRegistry_View (snd (Delete r db name)) db name = Inl (ErrNonExistingView db name)"
  by (simp add: Register_def ViewRegistry_View_def Delete_def Exists_def)

theorem view_registry_register_view_delete_witness:
  "ViewRegistry_View (snd (Register NewViewRegistry ''db'' (NewView ''myview'' None [])))
      ''db'' ''myview''
     = Inr (NewView ''myview'' None [])
   \<and> fst (Register (snd (Register NewViewRegistry ''db'' (NewView ''myview'' None [])))
       ''db'' (NewView ''myview'' None []))
     = Some (ErrExistingView ''db'' ''myview'')
   \<and> Delete NewViewRegistry ''random'' ''randomer''
     = (Some (ErrNonExistingView ''random'' ''randomer''), NewViewRegistry)
   \<and> ViewRegistry_View NewViewRegistry ''db'' ''myview''
     = Inl (ErrNonExistingView ''db'' ''myview'')"
proof -
  let ?view = "NewView ''myview'' None []"
  have name: "View_name ?view = ''myview''"
    by (simp add: NewView_def)
  have absent: "NewViewRegistry (''db'', View_name ?view) = None"
    by (simp add: NewViewRegistry_def)
  note all = view_registry_register_view_delete [of NewViewRegistry "''db''" ?view "''myview''"]
  from all absent have "ViewRegistry_View (snd (Register NewViewRegistry ''db'' ?view))
      ''db'' (View_name ?view) = Inr ?view"
    by blast
  then have first: "ViewRegistry_View (snd (Register NewViewRegistry ''db'' ?view))
      ''db'' ''myview'' = Inr ?view"
    by (simp only: name)
  from all absent have "fst (Register (snd (Register NewViewRegistry ''db'' ?view)) ''db'' ?view)
      = Some (ErrExistingView ''db'' (View_name ?view))"
    by blast
  then have second: "fst (Register (snd (Register NewViewRegistry ''db'' ?view)) ''db'' ?view)
      = Some (ErrExistingView ''db'' ''myview'')"
    by (simp only: name)
  have third: "Delete NewViewRegistry ''random'' ''randomer''
      = (Some (ErrNonExistingView ''random'' ''randomer''), NewViewRegistry)"
    using view_registry_register_view_delete
            [of NewViewRegistry "''random''" ?view "''randomer''"]
    by (simp add: NewViewRegistry_def)
  from all have fourth: "ViewRegistry_View NewViewRegistry ''db'' ''myview''
      = Inl (ErrNonExistingView ''db'' ''myview'')"
    by (simp add: NewViewRegistry_def)
  from first second third fourth show ?thesis by simp
qed

section \<open>Setting a session variable and reading it back\<close>

lemma Set_assign_frame:
  "Set_assign toLower defaults e s = Some s' \<Longrightarrow>
   (\<And>name. assignedVariable toLower e = Some name \<Longrightarrow> toLower name \<noteq> key) \<Longrightarrow>
   s' key = s key"
  by (induction toLower defaults e s rule: Set_assign.induct)
     (auto simp: Session_Set_def split: option.splits)

lemma Set_RowIter_frame:
  "Set_RowIter toLower defaults es s = Some s' \<Longrightarrow>
   (\<And>e name. e \<in> set es \<Longrightarrow> assignedVariable toLower e = Some name \<Longrightarrow> toLower name \<noteq> key) \<Longrightarrow>
   s' key = s key"
proof (induction es arbitrary: s)
  case Nil
  then show ?case by simp
next
  case (Cons e es)
  from Cons.prems(1) obtain s1 where s1: "Set_assign toLower defaults e s = Some s1"
      "Set_RowIter toLower defaults es s1 = Some s'"
    by (auto split: option.splits)
  have "s1 key = s key"
  proof (rule Set_assign_frame [OF s1(1)])
    fix name
    assume "assignedVariable toLower e = Some name"
    then show "toLower name \<noteq> key"
      by (rule Cons.prems(2) [of e, simplified])
  qed
  moreover have "s' key = s1 key"
  proof (rule Cons.IH [OF s1(2)])
    fix e' name
    assume "e' \<in> set es" "assignedVariable toLower e' = Some name"
    then show "toLower name \<noteq> key"
      using Cons.prems(2) [of e' name] by simp
  qed
  ultimately show ?case by simp
qed

lemma Set_RowIter_append:
  "Set_RowIter toLower defaults (xs @ ys) s = Some s' \<longleftrightarrow>
     (\<exists>s1. Set_RowIter toLower defaults xs s = Some s1 \<and>
           Set_RowIter toLower defaults ys s1 = Some s')"
  by (induction xs arbitrary: s) (auto split: option.splits)

lemma Set_assign_covered:
  "isSessionAssignment toLower e \<Longrightarrow> \<exists>s1. Set_assign toLower defaults e s = Some s1"
  by (induction toLower e rule: isSessionAssignment.induct) (auto split: option.splits)

lemma Set_RowIter_covered:
  "list_all (isSessionAssignment toLower) es \<Longrightarrow>
   \<exists>s'. Set_RowIter toLower defaults es s = Some s'"
proof (induction es arbitrary: s)
  case Nil
  show ?case by simp
next
  case (Cons e es)
  then have "isSessionAssignment toLower e" by simp
  then obtain s1 where "Set_assign toLower defaults e s = Some s1"
    using Set_assign_covered by blast
  with Cons show ?case by simp
qed

text \<open>
  Claim C7. A \<^verbatim>\<open>Set\<close> node whose assignments all go to session variables, each a literal
  or \<^verbatim>\<open>DEFAULT\<close>, runs without error. After a run, a session variable whose last assignment
  in the node is a literal reads back, under any spelling of its name that differs in
  case only, with exactly the literal's type and value; a session variable whose last
  assignment is \<^verbatim>\<open>DEFAULT\<close> and which has an entry in the default table reads back with
  exactly the type and value of that entry. The target \<open>@@name\<close> or \<open>@@session.name\<close> names
  the session variable \<open>name\<close>.
\<close>

theorem Set_then_Get_round_trip:
  "(list_all (isSessionAssignment toLower) exprs \<longrightarrow>
      (\<exists>s'. Set_RowIter toLower defaults exprs s = Some s'))
   \<and> (\<forall>pre post target val ty name s' read.
        exprs = pre @ SetField (UnresolvedColumn target) (Literal val ty) # post \<and>
        sessionVariableName toLower target = Some name \<and>
        (\<forall>e\<in>set post. \<forall>later. assignedVariable toLower e = Some later \<longrightarrow>
           toLower later \<noteq> toLower name) \<and>
        Set_RowIter toLower defaults exprs s = Some s' \<and>
        toLower read = toLower name \<longrightarrow>
        Session_Get toLower s' read = (ty, val))
   \<and> (\<forall>pre post target d name tv s' read.
        exprs = pre @ SetField (UnresolvedColumn target) (DefaultColumn d) # post \<and>
        sessionVariableName toLower target = Some name \<and>
        (\<forall>e\<in>set post. \<forall>later. assignedVariable toLower e = Some later \<longrightarrow>
           toLower later \<noteq> toLower name) \<and>
        defaults (toLower name) = Some tv \<and>
        Set_RowIter toLower defaults exprs s = Some s' \<and>
        toLower read = toLower name \<longrightarrow>
        Session_Get toLower s' read = (TypedValue_Typ tv, TypedValue_Value tv))"
proof (intro conjI allI impI)
  assume "list_all (isSessionAssignment toLower) exprs"
  then show "\<exists>s'. Set_RowIter toLower defaults exprs s = Some s'"
    by (rule Set_RowIter_covered)
next
  fix pre post target val ty name s' read
  assume a: "exprs = pre @ SetField (UnresolvedColumn target) (Literal val ty) # post \<and>
        sessionVariableName toLower target = Some name \<and>
        (\<forall>e\<in>set post. \<forall>later. assignedVariable toLower e = Some later \<longrightarrow>
           toLower later \<noteq> toLower name) \<and>
        Set_RowIter toLower defaults exprs s = Some s' \<and>
        toLower read = toLower name"
  then obtain s1 where "Set_RowIter toLower defaults
      (SetField (UnresolvedColumn target) (Literal val ty) # post) s1 = Some s'"
    by (auto simp: Set_RowIter_append)
  with a have run: "Set_RowIter toLower defaults post (Session_Set toLower s1 name ty val)
      = Some s'"
    by simp
  have "s' (toLower name) = Session_Set toLower s1 name ty val (toLower name)"
    by (rule Set_RowIter_frame [OF run]) (use a in blast)
  with a show "Session_Get toLower s' read = (ty, val)"
    by (simp add: Session_Get_def Session_Set_def)
next
  fix pre post target d name tv s' read
  assume a: "exprs = pre @ SetField (UnresolvedColumn target) (DefaultColumn d) # post \<and>
        sessionVariableName toLower target = Some name \<and>
        (\<forall>e\<in>set post. \<forall>later. assignedVariable toLower e = Some later \<longrightarrow>
           toLower later \<noteq> toLower name) \<and>
        defaults (toLower name) = Some tv \<and>
        Set_RowIter toLower defaults exprs s = Some s' \<and>
        toLower read = toLower name"
  then obtain s1 where "Set_RowIter toLower defaults
      (SetField (UnresolvedColumn target) (DefaultColumn d) # post) s1 = Some s'"
    by (auto simp: Set_RowIter_append)
  with a have run: "Set_RowIter toLower defaults post
      (Session_Set toLower s1 name (TypedValue_Typ tv) (TypedValue_Value tv)) = Some s'"
    by simp
  have "s' (toLower name) =
      Session_Set toLower s1 name (TypedValue_Typ tv) (TypedValue_Value tv) (toLower name)"
    by (rule Set_RowIter_frame [OF run]) (use a in blast)
  with a show "Session_Get toLower s' read = (TypedValue_Typ tv, TypedValue_Value tv)"
    by (simp add: Session_Get_def Session_Set_def)
qed

theorem Set_then_Get_round_trip_witness:
  "map_option (\<lambda>s'. (Session_Get asciiToLower s' ''foo'', Session_Get asciiToLower s' ''baz''))
     (Set_RowIter asciiToLower exampleDefaults
        [SetField (UnresolvedColumn ''foo'') (Literal (StringValue ''bar'') LongText),
         SetField (UnresolvedColumn ''@@baz'') (Literal (Int64Value 1) Int64)]
        (NewBaseSession exampleDefaults))
     = Some ((LongText, StringValue ''bar''), (Int64, Int64Value 1))
   \<and> map_option (\<lambda>s'. (Session_Get asciiToLower s' ''foo'', Session_Get asciiToLower s' ''two''))
     (Set_RowIter asciiToLower exampleDefaults
        [SetField (UnresolvedColumn ''foo'') (Literal (Int64Value 1) Int64),
         SetField (UnresolvedColumn ''@@SESSION.Two'') (Literal (StringValue ''x'') LongText),
         SetField (UnresolvedColumn ''FOO'') (Literal (Int64Value 2) Int64)]
        (NewBaseSession exampleDefaults))
     = Some ((Int64, Int64Value 2), (LongText, StringValue ''x''))
   \<and> map_option (\<lambda>s'. Session_Get asciiToLower s' ''auto_increment_increment'')
     (Option.bind
        (Set_RowIter asciiToLower exampleDefaults
           [SetField (UnresolvedColumn ''auto_increment_increment'')
              (Literal (Int64Value 123) Int64),
            SetField (UnresolvedColumn ''@@sql_select_limit'') (Literal (Int64Value 1) Int64)]
           (NewBaseSession exampleDefaults))
        (Set_RowIter asciiToLower exampleDefaults
           [SetField (UnresolvedColumn ''auto_increment_increment'') (DefaultColumn []),
            SetField (UnresolvedColumn ''@@sql_select_limit'') (DefaultColumn [])]))
     = Some (Int64, Int64Value 1)"
proof -
  let ?foo = "SetField (UnresolvedColumn ''foo'') (Literal (StringValue ''bar'') LongText)"
  let ?baz = "SetField (UnresolvedColumn ''@@baz'') (Literal (Int64Value 1) Int64)"
  let ?foo1 = "SetField (UnresolvedColumn ''foo'') (Literal (Int64Value 1) Int64)"
  let ?two = "SetField (UnresolvedColumn ''@@SESSION.Two'') (Literal (StringValue ''x'') LongText)"
  let ?foo2 = "SetField (UnresolvedColumn ''FOO'') (Literal (Int64Value 2) Int64)"
  let ?inc = "SetField (UnresolvedColumn ''auto_increment_increment'')
      (Literal (Int64Value 123) Int64)"
  let ?lim = "SetField (UnresolvedColumn ''@@sql_select_limit'') (Literal (Int64Value 1) Int64)"
  let ?dflt = "SetField (UnresolvedColumn ''auto_increment_increment'') (DefaultColumn [])"
  let ?dlim = "SetField (UnresolvedColumn ''@@sql_select_limit'') (DefaultColumn [])"
  let ?new = "NewBaseSession exampleDefaults"
  have names: "sessionVariableName asciiToLower ''foo'' = Some ''foo''"
      "sessionVariableName asciiToLower ''@@baz'' = Some ''baz''"
      "sessionVariableName asciiToLower ''FOO'' = Some ''foo''"
      "sessionVariableName asciiToLower ''@@SESSION.Two'' = Some ''two''"
      "sessionVariableName asciiToLower ''auto_increment_increment''
         = Some ''auto_increment_increment''"
      "sessionVariableName asciiToLower ''@@sql_select_limit'' = Some ''sql_select_limit''"
    by code_simp+
  have lowers: "asciiToLower ''foo'' = ''foo''" "asciiToLower ''baz'' = ''baz''"
      "asciiToLower ''two'' = ''two''"
      "asciiToLower ''auto_increment_increment'' = ''auto_increment_increment''"
      "asciiToLower ''sql_select_limit'' = ''sql_select_limit''"
    by code_simp+
  note t1 = Set_then_Get_round_trip [of asciiToLower "[?foo, ?baz]" exampleDefaults ?new]
  note t2 = Set_then_Get_round_trip [of asciiToLower "[?foo1, ?two, ?foo2]" exampleDefaults ?new]
  note t3 = Set_then_Get_round_trip [of asciiToLower "[?inc, ?lim]" exampleDefaults ?new]
  have cov1: "list_all (isSessionAssignment asciiToLower) [?foo, ?baz]"
    by (simp add: names)
  obtain s1 where run1: "Set_RowIter asciiToLower exampleDefaults [?foo, ?baz] ?new
      = Some s1"
    using t1 [THEN conjunct1, THEN mp, OF cov1] ..
  have foo: "Session_Get asciiToLower s1 ''foo'' = (LongText, StringValue ''bar'')"
    by (rule t1 [THEN conjunct2, THEN conjunct1, rule_format,
          of "[]" "''foo''" "StringValue ''bar''" LongText "[?baz]" "''foo''" s1 "''foo''"])
       (simp add: names lowers run1 del: Set_RowIter.simps)
  have baz: "Session_Get asciiToLower s1 ''baz'' = (Int64, Int64Value 1)"
    by (rule t1 [THEN conjunct2, THEN conjunct1, rule_format,
          of "[?foo]" "''@@baz''" "Int64Value 1" Int64 "[]" "''baz''" s1 "''baz''"])
       (simp add: names lowers run1 del: Set_RowIter.simps)
  have cov2: "list_all (isSessionAssignment asciiToLower) [?foo1, ?two, ?foo2]"
    by (simp add: names)
  obtain s2 where run2: "Set_RowIter asciiToLower exampleDefaults
      [?foo1, ?two, ?foo2] ?new = Some s2"
    using t2 [THEN conjunct1, THEN mp, OF cov2] ..
  have foo2: "Session_Get asciiToLower s2 ''foo'' = (Int64, Int64Value 2)"
    by (rule t2 [THEN conjunct2, THEN conjunct1, rule_format,
          of "[?foo1, ?two]" "''FOO''" "Int64Value 2" Int64 "[]" "''foo''" s2 "''foo''"])
       (simp add: names lowers run2 del: Set_RowIter.simps)
  have two: "Session_Get asciiToLower s2 ''two'' = (LongText, StringValue ''x'')"
    by (rule t2 [THEN conjunct2, THEN conjunct1, rule_format,
          of "[?foo1]" "''@@SESSION.Two''" "StringValue ''x''" LongText "[?foo2]" "''two''"
             s2 "''two''"])
       (simp add: names lowers run2 del: Set_RowIter.simps)
  have cov3: "list_all (isSessionAssignment asciiToLower) [?inc, ?lim]"
    by (simp add: names)
  obtain s3 where run3: "Set_RowIter asciiToLower exampleDefaults [?inc, ?lim] ?new
      = Some s3"
    using t3 [THEN conjunct1, THEN mp, OF cov3] ..
  note t4 = Set_then_Get_round_trip [of asciiToLower "[?dflt, ?dlim]" exampleDefaults s3]
  have cov4: "list_all (isSessionAssignment asciiToLower) [?dflt, ?dlim]"
    by (simp add: names)
  obtain s4 where run4: "Set_RowIter asciiToLower exampleDefaults [?dflt, ?dlim] s3
      = Some s4"
    using t4 [THEN conjunct1, THEN mp, OF cov4] ..
  have entry: "exampleDefaults ''auto_increment_increment''
      = Some \<lparr>TypedValue_Typ = Int64, TypedValue_Value = Int64Value 1\<rparr>"
    by (simp add: exampleDefaults_def)
  have "Session_Get asciiToLower s4 ''auto_increment_increment''
      = (TypedValue_Typ \<lparr>TypedValue_Typ = Int64, TypedValue_Value = Int64Value 1\<rparr>,
         TypedValue_Value \<lparr>TypedValue_Typ = Int64, TypedValue_Value = Int64Value 1\<rparr>)"
    by (rule t4 [THEN conjunct2, THEN conjunct2, rule_format,
          of "[]" "''auto_increment_increment''" "[]" "[?dlim]" "''auto_increment_increment''"
             "\<lparr>TypedValue_Typ = Int64, TypedValue_Value = Int64Value 1\<rparr>" s4
             "''auto_increment_increment''"])
       (simp add: names lowers entry run4 del: Set_RowIter.simps)
  then have dflt: "Session_Get asciiToLower s4 ''auto_increment_increment''
      = (Int64, Int64Value 1)"
    by simp
  from foo baz foo2 two dflt show ?thesis
    by (simp add: run1 run2 run3 run4 del: Set_RowIter.simps)
qed

end
